theory Spec2Isabelle
  imports Complex_Main
begin

section \<open>Python values\<close>

text \<open>
  The two handlers of \<^verbatim>\<open>ai_server/server.py\<close> build and return plain Python
  values: strings, numbers, lists and dicts with string keys. A Python \<^verbatim>\<open>str\<close> is
  modelled by its UTF-8 bytes (type \<open>string\<close>): comparison with a literal, the test for
  the empty string and concatenation are the same on the bytes as on the code points.
  A Python \<^verbatim>\<open>float\<close> is only carried around by the handlers, never computed with,
  and is modelled by the real number it denotes. A dict is an association list in
  insertion order.
\<close>

datatype pyval =
    PNone
  | PBool bool
  | PInt int
  | PFloat real
  | PStr string
  | PList "pyval list"
  | PDict "(string \<times> pyval) list"

text \<open>Python's truth value of an object, as tested by \<^verbatim>\<open>not x\<close> and \<^verbatim>\<open>x or y\<close>.\<close>

fun truthy :: "pyval \<Rightarrow> bool" where
  "truthy PNone = False"
| "truthy (PBool b) = b"
| "truthy (PInt i) = (i \<noteq> 0)"
| "truthy (PFloat x) = (x \<noteq> 0)"
| "truthy (PStr s) = (s \<noteq> [])"
| "truthy (PList xs) = (xs \<noteq> [])"
| "truthy (PDict kvs) = (kvs \<noteq> [])"

text \<open>
  \<^verbatim>\<open>x or d\<close> for an \<^verbatim>\<open>Optional[str]\<close> \<open>x\<close> and a string \<open>d\<close>: \<open>None\<close> and the empty
  string are both falsy.
\<close>

definition str_or :: "string option \<Rightarrow> string \<Rightarrow> string" where
  "str_or x d = (case x of None \<Rightarrow> d | Some s \<Rightarrow> if s = [] then d else s)"

subsection \<open>Decimal rendering of an integer\<close>

text \<open>\<^verbatim>\<open>str(n)\<close>, as an f-string applies it to an \<^verbatim>\<open>int\<close>.\<close>

definition digit_char :: "nat \<Rightarrow> char" where
  "digit_char d = ''0123456789'' ! d"

fun str_nat :: "nat \<Rightarrow> string" where
  "str_nat n = (if n < 10 then [digit_char n] else str_nat (n div 10) @ [digit_char (n mod 10)])"

declare str_nat.simps [simp del]

definition str_int :: "int \<Rightarrow> string" where
  "str_int i = (if i < 0 then CHR ''-'' # str_nat (nat (- i)) else str_nat (nat i))"

subsection \<open>\<^verbatim>\<open>str.strip()\<close>\<close>

text \<open>
  \<^verbatim>\<open>str.strip()\<close> without argument removes the leading and trailing code points for
  which \<^verbatim>\<open>str.isspace\<close> holds: U+0009 to U+000D, U+001C to U+0020, U+0085, U+00A0,
  U+1680, U+2000 to U+200A, U+2028, U+2029, U+202F, U+205F and U+3000. The table lists
  their UTF-8 encodings. UTF-8 is prefix-free and self-synchronising, so a well-formed
  string starts (ends) with one of the encodings exactly when its first (last) code
  point is that white space.
\<close>

definition whitespace :: "string list" where
  "whitespace =
     map (\<lambda>c. [c])
       [CHR 0x09, CHR 0x0A, CHR 0x0B, CHR 0x0C, CHR 0x0D,
        CHR 0x1C, CHR 0x1D, CHR 0x1E, CHR 0x1F, CHR 0x20] @
     [[CHR 0xC2, CHR 0x85], [CHR 0xC2, CHR 0xA0], [CHR 0xE1, CHR 0x9A, CHR 0x80]] @
     map (\<lambda>c. [CHR 0xE2, CHR 0x80, c])
       [CHR 0x80, CHR 0x81, CHR 0x82, CHR 0x83, CHR 0x84, CHR 0x85,
        CHR 0x86, CHR 0x87, CHR 0x88, CHR 0x89, CHR 0x8A,
        CHR 0xA8, CHR 0xA9, CHR 0xAF] @
     [[CHR 0xE2, CHR 0x81, CHR 0x9F], [CHR 0xE3, CHR 0x80, CHR 0x80]]"

function lstrip_with :: "string list \<Rightarrow> string \<Rightarrow> string" where
  "lstrip_with ws s =
     (case find (\<lambda>w. w \<noteq> [] \<and> take (length w) s = w) ws of
        None \<Rightarrow> s
      | Some w \<Rightarrow> lstrip_with ws (drop (length w) s))"
  by pat_completeness auto
termination
proof (relation "measure (\<lambda>(ws, s). length s)")
  show "wf (measure (\<lambda>(ws, s). length s))"
    by simp
next
  fix ws :: "string list" and s w :: string
  assume "find (\<lambda>w. w \<noteq> [] \<and> take (length w) s = w) ws = Some w"
  then have w: "w \<noteq> []" "take (length w) s = w"
    by (auto simp: find_Some_iff)
  have "length (take (length w) s) \<le> length s"
    by simp
  with w(2) have "length w \<le> length s"
    by simp
  with w(1) show "((ws, drop (length w) s), (ws, s)) \<in> measure (\<lambda>(ws, s). length s)"
    by (cases w) auto
qed

declare lstrip_with.simps [simp del]

definition strip :: "string \<Rightarrow> string" where
  "strip s = rev (lstrip_with (map rev whitespace) (rev (lstrip_with whitespace s)))"

section \<open>The local classifier: \<^verbatim>\<open>POST /ai/hf-classify\<close>\<close>

text \<open>Failures that the handlers do not catch: they leave the handler as exceptions.\<close>

datatype exn = InferenceFailure | UpstreamFailure

record ClassifyRequest =
  item_text :: string
  item_type :: "string option"

text \<open>
  \<^verbatim>\<open>model.config.id2label\<close>: the attribute may be missing, may be something that is not
  a dict, or is a dict. Only \<^verbatim>\<open>.get(label_id)\<close> with an \<^verbatim>\<open>int\<close> is applied to the dict,
  so the dict is the partial function from integers that \<^verbatim>\<open>get\<close> computes.
\<close>

datatype id2label_attr = NoAttr | NotADict | IsDict "int \<rightharpoonup> pyval"

text \<open>
  The tokenizer and the model are loaded once at start-up and are parameters of the
  handler. \<open>predict\<close> stands for lines 42 to 48 of the source: tokenisation, the
  forward pass, \<^verbatim>\<open>torch.softmax\<close>, \<^verbatim>\<open>torch.argmax\<close> and the read of the probability.
  It is given the text and yields \<open>label_id\<close> and \<open>score\<close>, or fails.
\<close>

record engine =
  predict :: "string \<Rightarrow> exn + (int \<times> real)"
  id2label :: id2label_attr

text \<open>
  A run of the handler: the texts handed to the tokenizer, in order, and the
  value returned (or the exception that escapes).
\<close>

record classify_run =
  tokenized :: "string list"
  classified :: "exn + pyval"

definition classify :: "engine \<Rightarrow> ClassifyRequest \<Rightarrow> classify_run" where
  "classify eng item =
     (let text0 = strip (item_text item);
          text1 = (case item_type item of
                     None \<Rightarrow> text0
                   | Some ty \<Rightarrow>
                       if ty \<in> set [''income'', ''expense'', ''expenses'']
                       then ''Transaction: '' @ text0 @ '' - Type: '' @ ty
                       else text0)
      in \<lparr>tokenized = [text1],
          classified =
            (case predict eng text1 of
               Inl e \<Rightarrow> Inl e
             | Inr (label_id, score) \<Rightarrow>
                 (let label_name0 = PNone;
                      label_name1 = (case id2label eng of
                                       IsDict d \<Rightarrow> (case d label_id of None \<Rightarrow> PNone | Some v \<Rightarrow> v)
                                     | _ \<Rightarrow> label_name0);
                      label_name2 = (if \<not> truthy label_name1
                                     then PStr (''LABEL_'' @ str_int label_id)
                                     else label_name1)
                  in Inr (PDict [(''label_id'', PInt label_id),
                                 (''label_name'', label_name2),
                                 (''score'', PFloat score)])))\<rparr>)"

section \<open>The remote categorisation proxy: \<^verbatim>\<open>POST /ai/fina-categorize\<close>\<close>

definition FINA_API_URL :: string where
  "FINA_API_URL = ''https://app.fina.money/api/resource/categorize''"

definition FINA_API_KEY_DEFAULT :: string where
  "FINA_API_KEY_DEFAULT = ''fina-api-test''"

definition FINA_PARTNER_ID_DEFAULT :: string where
  "FINA_PARTNER_ID_DEFAULT = ''f-j1fvmjmj''"

subsection \<open>Request models\<close>

text \<open>
  A field of the JSON body that the class declares with a default is either left out,
  sent as \<^verbatim>\<open>null\<close>, or sent with a value of the declared type. The declared classes
  turn the body into the object the handler receives: a field left out takes the
  declared default (stored as written in the class, so the default of \<open>amount\<close> is
  the integer \<open>0\<close>), \<^verbatim>\<open>null\<close> becomes \<open>None\<close>, a value is kept.
\<close>

datatype 'a field = Omitted | Null | Given 'a

definition with_default :: "'a option \<Rightarrow> 'a field \<Rightarrow> 'a option" where
  "with_default d f = (case f of Omitted \<Rightarrow> d | Null \<Rightarrow> None | Given v \<Rightarrow> Some v)"

datatype number = NInt int | NFloat real

record FinaItem =
  name :: string
  merchant :: "string option"
  amount :: "number option"

record FinaRequest =
  items :: "FinaItem list"
  model :: "string option"
  mapping :: "bool option"
  api_key :: "string option"
  partner_id :: "string option"

record FinaItem_body =
  name_in :: string
  merchant_in :: "string field"
  amount_in :: "real field"

record FinaRequest_body =
  items_in :: "FinaItem_body list"
  model_in :: "string field"
  mapping_in :: "bool field"
  api_key_in :: "string field"
  partner_id_in :: "string field"

definition FinaItem_of :: "FinaItem_body \<Rightarrow> FinaItem" where
  "FinaItem_of b =
     \<lparr>name = name_in b,
      merchant = with_default (Some '''') (merchant_in b),
      amount = with_default (Some (NInt 0)) (map_field NFloat (amount_in b))\<rparr>"

definition FinaRequest_of :: "FinaRequest_body \<Rightarrow> FinaRequest" where
  "FinaRequest_of b =
     \<lparr>items = map FinaItem_of (items_in b),
      model = with_default (Some ''v3'') (model_in b),
      mapping = with_default (Some True) (mapping_in b),
      api_key = with_default None (api_key_in b),
      partner_id = with_default None (partner_id_in b)\<rparr>"

text \<open>\<^verbatim>\<open>it.model_dump()\<close>: the dict of the fields, in the order of their declaration.\<close>

definition model_dump :: "FinaItem \<Rightarrow> pyval" where
  "model_dump it =
     PDict [(''name'', PStr (name it)),
            (''merchant'', case merchant it of None \<Rightarrow> PNone | Some m \<Rightarrow> PStr m),
            (''amount'', case amount it of
                           None \<Rightarrow> PNone
                         | Some (NInt i) \<Rightarrow> PInt i
                         | Some (NFloat x) \<Rightarrow> PFloat x)]"

subsection \<open>The upstream call\<close>

text \<open>
  The arguments of \<^verbatim>\<open>requests.post(FINA_API_URL, json=payload, headers=headers, timeout=15)\<close>.
\<close>

record http_request =
  url :: string
  json_body :: pyval
  headers :: "(string \<times> string) list"
  timeout :: nat

text \<open>
  The response \<open>r\<close>: \<^verbatim>\<open>r.status_code\<close>, \<^verbatim>\<open>r.text\<close>, and what \<^verbatim>\<open>r.json()\<close> would
  give, \<open>None\<close> when it raises.
\<close>

record response =
  status_code :: int
  resp_text :: string
  resp_json :: "pyval option"

text \<open>
  The upstream service is a parameter of the handler: it answers a request with a
  response, or the call fails (network error, timeout) with an exception that the
  handler does not catch.
\<close>

type_synonym upstream = "http_request \<Rightarrow> exn + response"

text \<open>What a run of the handler does to the outside, in order.\<close>

datatype call = Post http_request | ResponseJson

record fina_run =
  calls :: "call list"
  returned :: "exn + pyval"

definition fina_categorize :: "upstream \<Rightarrow> FinaRequest \<Rightarrow> fina_run" where
  "fina_categorize post req =
     (let model' = str_or (model req) ''v3'';
          mapping' = (if mapping req = None \<or> mapping req = Some True then ''true'' else ''false'');
          api_key' = str_or (api_key req) FINA_API_KEY_DEFAULT;
          partner_id' = str_or (partner_id req) FINA_PARTNER_ID_DEFAULT;
          headers' = [(''Content-Type'', ''application/json''),
                      (''x-api-key'', api_key'),
                      (''x-partner-id'', partner_id'),
                      (''x-api-model'', model'),
                      (''x-api-mapping'', mapping')];
          payload = (if model' = ''v1''
                     then PList (map (\<lambda>it. PStr (name it)) (items req))
                     else PList (map model_dump (items req)));
          rq = \<lparr>url = FINA_API_URL, json_body = payload, headers = headers', timeout = 15\<rparr>
      in case post rq of
           Inl e \<Rightarrow> \<lparr>calls = [Post rq], returned = Inl e\<rparr>
         | Inr r \<Rightarrow>
             if status_code r \<ge> 400
             then \<lparr>calls = [Post rq],
                   returned = Inr (PDict [(''status'', PInt (status_code r)),
                                          (''error'', PStr (resp_text r))])\<rparr>
             else (let data = (case resp_json r of Some v \<Rightarrow> v | None \<Rightarrow> PStr (resp_text r))
                   in \<lparr>calls = [Post rq, ResponseJson],
                       returned = Inr (PDict [(''status'', PInt 200),
                                              (''categories'', data)])\<rparr>))"

text \<open>The requests a run has sent upstream.\<close>

fun posted :: "call list \<Rightarrow> http_request list" where
  "posted [] = []"
| "posted (Post rq # cs) = rq # posted cs"
| "posted (ResponseJson # cs) = posted cs"

definition sent_payloads :: "fina_run \<Rightarrow> pyval list" where
  "sent_payloads run = map json_body (posted (calls run))"

definition sent_headers :: "fina_run \<Rightarrow> (string \<times> string) list list" where
  "sent_headers run = map headers (posted (calls run))"

text \<open>The value(s) that the requests sent carry under a header name.\<close>

definition sent_header :: "string \<Rightarrow> fina_run \<Rightarrow> string option list" where
  "sent_header h run = map (\<lambda>rq. map_of (headers rq) h) (posted (calls run))"

section \<open>Sample inputs\<close>

definition item_expense :: ClassifyRequest where
  "item_expense = \<lparr>item_text = ''  coffee shop '', item_type = Some ''expense''\<rparr>"

definition predict_first :: "string \<Rightarrow> exn + (int \<times> real)" where
  "predict_first t = Inr (0, 3 / 4)"

definition predict_second :: "string \<Rightarrow> exn + (int \<times> real)" where
  "predict_second t = Inr (1, 3 / 4)"

definition predict_third :: "string \<Rightarrow> exn + (int \<times> real)" where
  "predict_third t = Inr (2, 1 / 2)"

definition labels_blank :: "int \<rightharpoonup> pyval" where
  "labels_blank = [0 \<mapsto> PStr '''', 1 \<mapsto> PStr ''Food'', 2 \<mapsto> PNone]"

definition engine_blank :: engine where
  "engine_blank = \<lparr>predict = predict_first, id2label = IsDict labels_blank\<rparr>"

definition engine_none :: engine where
  "engine_none = \<lparr>predict = predict_third, id2label = IsDict labels_blank\<rparr>"

definition engine_food :: engine where
  "engine_food = \<lparr>predict = predict_second, id2label = IsDict labels_blank\<rparr>"

definition body_plain :: FinaRequest_body where
  "body_plain =
     \<lparr>items_in = [\<lparr>name_in = ''Uber'', merchant_in = Omitted, amount_in = Omitted\<rparr>,
                  \<lparr>name_in = ''Lidl'', merchant_in = Given ''Lidl GmbH'', amount_in = Given 12\<rparr>],
      model_in = Omitted, mapping_in = Omitted,
      api_key_in = Omitted, partner_id_in = Omitted\<rparr>"

definition body_blank :: FinaRequest_body where
  "body_blank =
     \<lparr>items_in = [\<lparr>name_in = ''Uber'', merchant_in = Omitted, amount_in = Omitted\<rparr>],
      model_in = Given '''', mapping_in = Null,
      api_key_in = Given '''', partner_id_in = Given ''''\<rparr>"

definition body_caller :: FinaRequest_body where
  "body_caller =
     \<lparr>items_in = [\<lparr>name_in = ''Uber'', merchant_in = Null, amount_in = Given 7\<rparr>,
                  \<lparr>name_in = ''Lidl'', merchant_in = Omitted, amount_in = Omitted\<rparr>],
      model_in = Given ''v1'', mapping_in = Given False,
      api_key_in = Given ''k-123'', partner_id_in = Null\<rparr>"

definition upstream_404 :: upstream where
  "upstream_404 rq = Inr \<lparr>status_code = 404, resp_text = ''not found'', resp_json = None\<rparr>"

definition upstream_201 :: upstream where
  "upstream_201 rq =
     Inr \<lparr>status_code = 201, resp_text = ''[1, 2]'', resp_json = Some (PList [PInt 1, PInt 2])\<rparr>"

definition upstream_plain :: upstream where
  "upstream_plain rq = Inr \<lparr>status_code = 200, resp_text = ''plain text'', resp_json = None\<rparr>"

definition request_plain :: http_request where
  "request_plain =
     \<lparr>url = ''https://app.fina.money/api/resource/categorize'',
      json_body =
        PList [PDict [(''name'', PStr ''Uber''), (''merchant'', PStr ''''), (''amount'', PInt 0)],
               PDict [(''name'', PStr ''Lidl''), (''merchant'', PStr ''Lidl GmbH''),
                      (''amount'', PFloat 12)]],
      headers = [(''Content-Type'', ''application/json''),
                 (''x-api-key'', ''fina-api-test''),
                 (''x-partner-id'', ''f-j1fvmjmj''),
                 (''x-api-model'', ''v3''),
                 (''x-api-mapping'', ''true'')],
      timeout = 15\<rparr>"

section \<open>Auxiliary facts\<close>

lemma strip_coffee_shop: "strip ''  coffee shop '' = ''coffee shop''"
  by code_simp

lemma str_int_small: "str_int 0 = ''0''" "str_int 1 = ''1''" "str_int 2 = ''2''"
  by (simp_all add: str_int_def str_nat.simps digit_char_def)

lemma tokenized_item_expense:
  "tokenized (classify eng item_expense) = [''Transaction: coffee shop - Type: expense'']"
  by (simp add: classify_def Let_def item_expense_def strip_coffee_shop)

lemma tokenized_single:
  "tokenized (classify eng item) = [hd (tokenized (classify eng item))]"
  by (simp add: classify_def Let_def)

text \<open>The value returned once the engine has answered the text it was given.\<close>

lemma classify_predicted:
  assumes "tokenized (classify eng item) = [t]" and "predict eng t = Inr (l, s)"
  shows "classified (classify eng item) =
           Inr (PDict [(''label_id'', PInt l),
                       (''label_name'',
                          let looked_up = (case id2label eng of
                                             IsDict d \<Rightarrow> (case d l of None \<Rightarrow> PNone | Some v \<Rightarrow> v)
                                           | _ \<Rightarrow> PNone)
                          in if truthy looked_up then looked_up
                             else PStr (''LABEL_'' @ str_int l)),
                       (''score'', PFloat s)])"
proof -
  from assms(1) have "predict eng t = predict eng (hd (tokenized (classify eng item)))"
    by simp
  with assms(2) show ?thesis
    by (simp add: classify_def Let_def)
qed

text \<open>Every run of the proxy sends exactly one request, built from the request object alone.\<close>

lemma posted_fina_categorize:
  "posted (calls (fina_categorize post req)) =
     [\<lparr>url = FINA_API_URL,
       json_body = (if str_or (model req) ''v3'' = ''v1''
                    then PList (map (\<lambda>it. PStr (name it)) (items req))
                    else PList (map model_dump (items req))),
       headers = [(''Content-Type'', ''application/json''),
                  (''x-api-key'', str_or (api_key req) FINA_API_KEY_DEFAULT),
                  (''x-partner-id'', str_or (partner_id req) FINA_PARTNER_ID_DEFAULT),
                  (''x-api-model'', str_or (model req) ''v3''),
                  (''x-api-mapping'', if mapping req = Some False then ''false'' else ''true'')],
       timeout = 15\<rparr>]"
  by (cases "mapping req") (auto simp: fina_categorize_def Let_def split: sum.split)

lemma posted_single:
  "posted (calls (fina_categorize post req)) = [hd (posted (calls (fina_categorize post req)))]"
  by (simp add: posted_fina_categorize)

lemma fina_categorize_shape:
  obtains rq where
    "fina_categorize post req =
       (case post rq of
          Inl e \<Rightarrow> \<lparr>calls = [Post rq], returned = Inl e\<rparr>
        | Inr r \<Rightarrow>
            if 400 \<le> status_code r
            then \<lparr>calls = [Post rq],
                  returned = Inr (PDict [(''status'', PInt (status_code r)),
                                         (''error'', PStr (resp_text r))])\<rparr>
            else \<lparr>calls = [Post rq, ResponseJson],
                  returned = Inr (PDict [(''status'', PInt 200),
                                         (''categories'', case resp_json r of
                                                            Some v \<Rightarrow> v
                                                          | None \<Rightarrow> PStr (resp_text r))])\<rparr>)"
  by (rule that) (unfold fina_categorize_def Let_def, rule refl)

lemma fina_categorize_answered:
  assumes "posted (calls (fina_categorize post req)) = [rq]" and "post rq = Inr r"
  shows "fina_categorize post req =
           (if 400 \<le> status_code r
            then \<lparr>calls = [Post rq],
                  returned = Inr (PDict [(''status'', PInt (status_code r)),
                                         (''error'', PStr (resp_text r))])\<rparr>
            else \<lparr>calls = [Post rq, ResponseJson],
                  returned = Inr (PDict [(''status'', PInt 200),
                                         (''categories'', case resp_json r of
                                                            Some v \<Rightarrow> v
                                                          | None \<Rightarrow> PStr (resp_text r))])\<rparr>)"
proof -
  obtain rq0 where run:
    "fina_categorize post req =
       (case post rq0 of
          Inl e \<Rightarrow> \<lparr>calls = [Post rq0], returned = Inl e\<rparr>
        | Inr r \<Rightarrow>
            if 400 \<le> status_code r
            then \<lparr>calls = [Post rq0],
                  returned = Inr (PDict [(''status'', PInt (status_code r)),
                                         (''error'', PStr (resp_text r))])\<rparr>
            else \<lparr>calls = [Post rq0, ResponseJson],
                  returned = Inr (PDict [(''status'', PInt 200),
                                         (''categories'', case resp_json r of
                                                            Some v \<Rightarrow> v
                                                          | None \<Rightarrow> PStr (resp_text r))])\<rparr>)"
    by (rule fina_categorize_shape)
  have "posted (calls (fina_categorize post req)) = [rq0]"
    unfolding run by (simp split: sum.split)
  with assms(1) have "rq0 = rq"
    by simp
  with run assms(2) show ?thesis
    by simp
qed

section \<open>The classifier's text and label name\<close>

text \<open>
  C4. The handler hands exactly one text to the tokenizer. When the request's type is
  \<^verbatim>\<open>"income"\<close>, \<^verbatim>\<open>"expense"\<close> or \<^verbatim>\<open>"expenses"\<close>, that text is
  \<^verbatim>\<open>"Transaction: "\<close>, the stripped input text, \<^verbatim>\<open>" - Type: "\<close> and the type; for every
  other type, and for no type at all, it is the stripped input text unchanged.
\<close>

theorem tokenizer_text:
  "tokenized (classify eng item) =
     [case item_type item of
        None \<Rightarrow> strip (item_text item)
      | Some ty \<Rightarrow>
          if ty = ''income'' \<or> ty = ''expense'' \<or> ty = ''expenses''
          then ''Transaction: '' @ strip (item_text item) @ '' - Type: '' @ ty
          else strip (item_text item)]"
  by (simp add: classify_def Let_def split: option.split)

theorem tokenizer_text_witness:
  "tokenized (classify engine_food item_expense) = [''Transaction: coffee shop - Type: expense'']"
  using tokenizer_text [of engine_food item_expense]
  by (simp add: item_expense_def strip_coffee_shop)

text \<open>
  C6, as stated, fails: the label mapping below contains the predicted id \<open>0\<close> and maps it
  to the empty string, yet the label name returned is \<^verbatim>\<open>"LABEL_0"\<close> and not the mapped
  value.
\<close>

theorem mapped_value_not_always_returned:
  "id2label engine_blank = IsDict labels_blank
   \<and> labels_blank 0 = Some (PStr '''')
   \<and> classified (classify engine_blank item_expense) =
       Inr (PDict [(''label_id'', PInt 0), (''label_name'', PStr ''LABEL_0''),
                   (''score'', PFloat (3 / 4))])
   \<and> PStr ''LABEL_0'' \<noteq> PStr ''''"
proof -
  have t: "tokenized (classify engine_blank item_expense) =
             [''Transaction: coffee shop - Type: expense'']"
    by (rule tokenized_item_expense)
  have p: "predict engine_blank ''Transaction: coffee shop - Type: expense'' = Inr (0, 3 / 4)"
    by (simp add: engine_blank_def predict_first_def)
  show ?thesis
    using classify_predicted [OF t p]
    by (simp add: engine_blank_def labels_blank_def str_int_small)
qed

text \<open>
  C6, amended. Every run hands exactly one text to the tokenizer, and when the engine
  predicts \<open>label_id\<close> for that text, the returned \<open>label_name\<close> is the value that the
  configured id-to-label dict holds for \<open>label_id\<close> if the dict holds one and that value is
  truthy; in every other case (the value is falsy, the id is absent, the attribute is not
  a dict or is missing) it is \<^verbatim>\<open>"LABEL_"\<close> followed by the decimal \<open>label_id\<close>.
\<close>

theorem label_name_resolution:
  "\<exists>t. tokenized (classify eng item) = [t]
     \<and> (\<forall>l s. predict eng t = Inr (l, s) \<longrightarrow>
          classified (classify eng item) =
            Inr (PDict [(''label_id'', PInt l),
                        (''label_name'',
                           case id2label eng of
                             IsDict d \<Rightarrow>
                               (case d l of
                                  Some v \<Rightarrow> if truthy v then v else PStr (''LABEL_'' @ str_int l)
                                | None \<Rightarrow> PStr (''LABEL_'' @ str_int l))
                           | NotADict \<Rightarrow> PStr (''LABEL_'' @ str_int l)
                           | NoAttr \<Rightarrow> PStr (''LABEL_'' @ str_int l)),
                        (''score'', PFloat s)]))"
proof -
  obtain t where t: "tokenized (classify eng item) = [t]"
    using tokenized_single by blast
  have "classified (classify eng item) =
            Inr (PDict [(''label_id'', PInt l),
                        (''label_name'',
                           case id2label eng of
                             IsDict d \<Rightarrow>
                               (case d l of
                                  Some v \<Rightarrow> if truthy v then v else PStr (''LABEL_'' @ str_int l)
                                | None \<Rightarrow> PStr (''LABEL_'' @ str_int l))
                           | NotADict \<Rightarrow> PStr (''LABEL_'' @ str_int l)
                           | NoAttr \<Rightarrow> PStr (''LABEL_'' @ str_int l)),
                        (''score'', PFloat s)])"
    if "predict eng t = Inr (l, s)" for l s
    by (simp add: classify_predicted [OF t that] Let_def split: id2label_attr.split option.split)
  with t show ?thesis
    by blast
qed

theorem label_name_resolution_witness:
  "tokenized (classify engine_food item_expense) = [''Transaction: coffee shop - Type: expense'']
   \<and> predict engine_food ''Transaction: coffee shop - Type: expense'' = Inr (1, 3 / 4)
   \<and> classified (classify engine_food item_expense) =
       Inr (PDict [(''label_id'', PInt 1), (''label_name'', PStr ''Food''),
                   (''score'', PFloat (3 / 4))])"
proof -
  have t: "tokenized (classify engine_food item_expense) =
             [''Transaction: coffee shop - Type: expense'']"
    by (rule tokenized_item_expense)
  have p: "predict engine_food ''Transaction: coffee shop - Type: expense'' = Inr (1, 3 / 4)"
    by (simp add: engine_food_def predict_second_def)
  from label_name_resolution [of engine_food item_expense] t p
  have "classified (classify engine_food item_expense) =
          Inr (PDict [(''label_id'', PInt 1),
                      (''label_name'',
                         case id2label engine_food of
                           IsDict d \<Rightarrow>
                             (case d 1 of
                                Some v \<Rightarrow> if truthy v then v else PStr (''LABEL_'' @ str_int 1)
                              | None \<Rightarrow> PStr (''LABEL_'' @ str_int 1))
                         | NotADict \<Rightarrow> PStr (''LABEL_'' @ str_int 1)
                         | NoAttr \<Rightarrow> PStr (''LABEL_'' @ str_int 1)),
                      (''score'', PFloat (3 / 4))])"
    by auto
  with t p show ?thesis
    by (simp add: engine_food_def labels_blank_def)
qed

text \<open>
  C10. Every run hands exactly one text to the tokenizer, and when the engine predicts
  \<open>label_id\<close> for that text and the id-to-label dict contains \<open>label_id\<close> but maps it to
  a falsy value, the returned \<open>label_name\<close> is \<^verbatim>\<open>"LABEL_"\<close> followed by the decimal
  \<open>label_id\<close>; the empty string and \<open>None\<close> are falsy.
\<close>

theorem falsy_label_synthesized:
  "(\<exists>t. tokenized (classify eng item) = [t]
      \<and> (\<forall>l s d v. predict eng t = Inr (l, s) \<and> id2label eng = IsDict d
                    \<and> d l = Some v \<and> \<not> truthy v \<longrightarrow>
           classified (classify eng item) =
             Inr (PDict [(''label_id'', PInt l),
                         (''label_name'', PStr (''LABEL_'' @ str_int l)),
                         (''score'', PFloat s)])))
   \<and> \<not> truthy (PStr '''') \<and> \<not> truthy PNone"
proof -
  obtain t where t: "tokenized (classify eng item) = [t]"
    using tokenized_single by blast
  have "classified (classify eng item) =
             Inr (PDict [(''label_id'', PInt l),
                         (''label_name'', PStr (''LABEL_'' @ str_int l)),
                         (''score'', PFloat s)])"
    if "predict eng t = Inr (l, s)" and "id2label eng = IsDict d" and "d l = Some v"
      and "\<not> truthy v" for l s d v
    using that(2-4) by (simp add: classify_predicted [OF t that(1)])
  with t show ?thesis
    by auto
qed

theorem falsy_label_synthesized_witness:
  "tokenized (classify engine_none item_expense) = [''Transaction: coffee shop - Type: expense'']
   \<and> predict engine_none ''Transaction: coffee shop - Type: expense'' = Inr (2, 1 / 2)
   \<and> id2label engine_none = IsDict labels_blank
   \<and> labels_blank 2 = Some PNone
   \<and> \<not> truthy PNone
   \<and> classified (classify engine_none item_expense) =
       Inr (PDict [(''label_id'', PInt 2), (''label_name'', PStr ''LABEL_2''),
                   (''score'', PFloat (1 / 2))])"
proof -
  have t: "tokenized (classify engine_none item_expense) =
             [''Transaction: coffee shop - Type: expense'']"
    by (rule tokenized_item_expense)
  have p: "predict engine_none ''Transaction: coffee shop - Type: expense'' = Inr (2, 1 / 2)"
    by (simp add: engine_none_def predict_third_def)
  have a: "id2label engine_none = IsDict labels_blank"
    by (simp add: engine_none_def)
  have d: "labels_blank 2 = Some PNone"
    by (simp add: labels_blank_def)
  have f: "\<not> truthy PNone"
    by simp
  from falsy_label_synthesized [of engine_none item_expense] t p a d f
  have "classified (classify engine_none item_expense) =
          Inr (PDict [(''label_id'', PInt 2),
                      (''label_name'', PStr (''LABEL_'' @ str_int 2)),
                      (''score'', PFloat (1 / 2))])"
    by auto
  with t p a d f show ?thesis
    by (simp add: str_int_small)
qed

section \<open>The proxy's outbound request\<close>

text \<open>
  C1. The one payload sent upstream is, when the resolved model version is \<^verbatim>\<open>"v1"\<close>,
  the list of the items' names as strings, in the order of the items; for every other
  model version it is the list of the items' dumps, in the same order. The dump of an
  item has the keys \<open>name\<close>, \<open>merchant\<close> and \<open>amount\<close>; a merchant left out of the body
  is dumped as the empty string and an amount left out as \<open>0\<close>.
\<close>

theorem payload_by_model:
  "sent_payloads (fina_categorize post req) =
     [if str_or (model req) ''v3'' = ''v1''
      then PList (map (\<lambda>it. PStr (name it)) (items req))
      else PList (map model_dump (items req))]
   \<and> model_dump (FinaItem_of b) =
       PDict [(''name'', PStr (name_in b)),
              (''merchant'', case merchant_in b of
                               Omitted \<Rightarrow> PStr '''' | Null \<Rightarrow> PNone | Given m \<Rightarrow> PStr m),
              (''amount'', case amount_in b of
                             Omitted \<Rightarrow> PInt 0 | Null \<Rightarrow> PNone | Given a \<Rightarrow> PFloat a)]"
proof
  show "sent_payloads (fina_categorize post req) =
     [if str_or (model req) ''v3'' = ''v1''
      then PList (map (\<lambda>it. PStr (name it)) (items req))
      else PList (map model_dump (items req))]"
    by (simp add: sent_payloads_def posted_fina_categorize)
next
  show "model_dump (FinaItem_of b) =
       PDict [(''name'', PStr (name_in b)),
              (''merchant'', case merchant_in b of
                               Omitted \<Rightarrow> PStr '''' | Null \<Rightarrow> PNone | Given m \<Rightarrow> PStr m),
              (''amount'', case amount_in b of
                             Omitted \<Rightarrow> PInt 0 | Null \<Rightarrow> PNone | Given a \<Rightarrow> PFloat a)]"
    by (simp add: model_dump_def FinaItem_of_def with_default_def split: field.split)
qed

theorem payload_by_model_witness:
  "sent_payloads (fina_categorize upstream_201 (FinaRequest_of body_caller)) =
     [PList [PStr ''Uber'', PStr ''Lidl'']]
   \<and> sent_payloads (fina_categorize upstream_404 (FinaRequest_of body_plain)) =
     [PList [PDict [(''name'', PStr ''Uber''), (''merchant'', PStr ''''), (''amount'', PInt 0)],
             PDict [(''name'', PStr ''Lidl''), (''merchant'', PStr ''Lidl GmbH''),
                    (''amount'', PFloat 12)]]]"
  using payload_by_model [of upstream_201 "FinaRequest_of body_caller" "hd (items_in body_plain)"]
    payload_by_model [of upstream_404 "FinaRequest_of body_plain" "hd (items_in body_plain)"]
  by (simp add: FinaRequest_of_def body_caller_def body_plain_def with_default_def str_or_def
      FinaItem_of_def model_dump_def)

text \<open>
  C7. The one request sent upstream carries exactly five headers: the JSON content type,
  then the resolved api key, partner id and model version, then the mapping flag as the
  string \<^verbatim>\<open>"true"\<close> or \<^verbatim>\<open>"false"\<close>. A mapping flag left out of the body is sent as
  \<^verbatim>\<open>"true"\<close>, an explicit \<open>false\<close> as \<^verbatim>\<open>"false"\<close>.
\<close>

theorem outbound_headers:
  "sent_headers (fina_categorize post req) =
     [[(''Content-Type'', ''application/json''),
       (''x-api-key'', str_or (api_key req) FINA_API_KEY_DEFAULT),
       (''x-partner-id'', str_or (partner_id req) FINA_PARTNER_ID_DEFAULT),
       (''x-api-model'', str_or (model req) ''v3''),
       (''x-api-mapping'', if mapping req = Some False then ''false'' else ''true'')]]
   \<and> sent_header ''x-api-mapping'' (fina_categorize post (FinaRequest_of b)) =
       [Some (case mapping_in b of
                Omitted \<Rightarrow> ''true''
              | Null \<Rightarrow> ''true''
              | Given m \<Rightarrow> if m then ''true'' else ''false'')]"
  by (simp add: sent_headers_def sent_header_def posted_fina_categorize FinaRequest_of_def
      with_default_def split: field.split)

theorem outbound_headers_witness:
  "sent_headers (fina_categorize upstream_201 (FinaRequest_of body_caller)) =
     [[(''Content-Type'', ''application/json''),
       (''x-api-key'', ''k-123''),
       (''x-partner-id'', ''f-j1fvmjmj''),
       (''x-api-model'', ''v1''),
       (''x-api-mapping'', ''false'')]]
   \<and> sent_header ''x-api-mapping'' (fina_categorize upstream_201 (FinaRequest_of body_plain)) =
       [Some ''true'']"
  using outbound_headers [of upstream_201 "FinaRequest_of body_caller" body_plain]
  by (simp add: FinaRequest_of_def body_caller_def body_plain_def with_default_def str_or_def
      FINA_PARTNER_ID_DEFAULT_def)

text \<open>
  C8, as stated, fails: the request below supplies the api key as the empty string, and
  the header carries \<^verbatim>\<open>"fina-api-test"\<close>, not the caller's value.
\<close>

theorem supplied_empty_key_replaced:
  "api_key (FinaRequest_of body_blank) = Some ''''
   \<and> sent_header ''x-api-key'' (fina_categorize upstream_plain (FinaRequest_of body_blank)) =
       [Some ''fina-api-test'']
   \<and> ''fina-api-test'' \<noteq> ''''"
  by (simp add: sent_header_def posted_fina_categorize FinaRequest_of_def body_blank_def
      with_default_def str_or_def FINA_API_KEY_DEFAULT_def)

text \<open>
  C8, amended. The \<^verbatim>\<open>x-api-key\<close> header carries \<^verbatim>\<open>"fina-api-test"\<close> when the request has
  no api key, and the caller's api key when the request has one that is not the empty
  string; the \<^verbatim>\<open>x-partner-id\<close> header carries \<^verbatim>\<open>"f-j1fvmjmj"\<close> when the request has no
  partner id, and the caller's partner id when the request has one that is not the empty
  string. (A key or id given as the empty string is replaced by the constant as well.)
\<close>

theorem credentials_default:
  "sent_header ''x-api-key'' (fina_categorize post req) =
     [Some (case api_key req of
              None \<Rightarrow> ''fina-api-test''
            | Some k \<Rightarrow> if k = [] then ''fina-api-test'' else k)]
   \<and> sent_header ''x-partner-id'' (fina_categorize post req) =
     [Some (case partner_id req of
              None \<Rightarrow> ''f-j1fvmjmj''
            | Some p \<Rightarrow> if p = [] then ''f-j1fvmjmj'' else p)]"
  by (simp add: sent_header_def posted_fina_categorize str_or_def
      FINA_API_KEY_DEFAULT_def FINA_PARTNER_ID_DEFAULT_def split: option.split)

theorem credentials_default_witness:
  "sent_header ''x-api-key'' (fina_categorize upstream_201 (FinaRequest_of body_caller)) =
     [Some ''k-123'']
   \<and> sent_header ''x-partner-id'' (fina_categorize upstream_201 (FinaRequest_of body_caller)) =
     [Some ''f-j1fvmjmj'']"
  using credentials_default [of upstream_201 "FinaRequest_of body_caller"]
  by (simp add: FinaRequest_of_def body_caller_def with_default_def)

text \<open>
  C9. A model version, api key or partner id that the body gives as the empty string is
  replaced in the outbound headers by \<^verbatim>\<open>"v3"\<close>, \<^verbatim>\<open>"fina-api-test"\<close> and \<^verbatim>\<open>"f-j1fvmjmj"\<close>
  respectively, and a mapping flag that the body gives as \<^verbatim>\<open>null\<close> is sent as \<^verbatim>\<open>"true"\<close>.
\<close>

theorem falsy_fields_default:
  "(model_in b = Given '''' \<longrightarrow>
      sent_header ''x-api-model'' (fina_categorize post (FinaRequest_of b)) = [Some ''v3''])
   \<and> (api_key_in b = Given '''' \<longrightarrow>
      sent_header ''x-api-key'' (fina_categorize post (FinaRequest_of b)) =
        [Some ''fina-api-test''])
   \<and> (partner_id_in b = Given '''' \<longrightarrow>
      sent_header ''x-partner-id'' (fina_categorize post (FinaRequest_of b)) =
        [Some ''f-j1fvmjmj''])
   \<and> (mapping_in b = Null \<longrightarrow>
      sent_header ''x-api-mapping'' (fina_categorize post (FinaRequest_of b)) = [Some ''true''])"
  by (simp add: sent_header_def posted_fina_categorize FinaRequest_of_def with_default_def
      str_or_def FINA_API_KEY_DEFAULT_def FINA_PARTNER_ID_DEFAULT_def)

theorem falsy_fields_default_witness:
  "model_in body_blank = Given '''' \<and> api_key_in body_blank = Given ''''
   \<and> partner_id_in body_blank = Given '''' \<and> mapping_in body_blank = Null
   \<and> sent_header ''x-api-model'' (fina_categorize upstream_plain (FinaRequest_of body_blank)) =
       [Some ''v3'']
   \<and> sent_header ''x-api-key'' (fina_categorize upstream_plain (FinaRequest_of body_blank)) =
       [Some ''fina-api-test'']
   \<and> sent_header ''x-partner-id'' (fina_categorize upstream_plain (FinaRequest_of body_blank)) =
       [Some ''f-j1fvmjmj'']
   \<and> sent_header ''x-api-mapping'' (fina_categorize upstream_plain (FinaRequest_of body_blank)) =
       [Some ''true'']"
proof -
  have b: "model_in body_blank = Given ''''" "api_key_in body_blank = Given ''''"
    "partner_id_in body_blank = Given ''''" "mapping_in body_blank = Null"
    by (simp_all add: body_blank_def)
  show ?thesis
    using falsy_fields_default [of body_blank upstream_plain] b by simp
qed

section \<open>The proxy's answer\<close>

text \<open>
  C2. Every run sends exactly one request upstream, and when the upstream answers that
  request with a status code of 400 or more, the handler returns the dict with \<open>status\<close>,
  the upstream status code, and \<open>error\<close>, the raw text of the response, and nothing
  else: it does not raise, the dict has no \<open>categories\<close> entry, and the POST is the
  run's only call, so \<^verbatim>\<open>r.json()\<close> is never called.
\<close>

theorem upstream_error_reported:
  "\<exists>rq. posted (calls (fina_categorize post req)) = [rq]
      \<and> (\<forall>r. post rq = Inr r \<and> 400 \<le> status_code r \<longrightarrow>
           returned (fina_categorize post req) =
             Inr (PDict [(''status'', PInt (status_code r)), (''error'', PStr (resp_text r))])
           \<and> calls (fina_categorize post req) = [Post rq])"
proof -
  obtain rq where rq: "posted (calls (fina_categorize post req)) = [rq]"
    using posted_single by blast
  have "returned (fina_categorize post req) =
             Inr (PDict [(''status'', PInt (status_code r)), (''error'', PStr (resp_text r))])
           \<and> calls (fina_categorize post req) = [Post rq]"
    if "post rq = Inr r" and "400 \<le> status_code r" for r
    using that(2) by (simp add: fina_categorize_answered [OF rq that(1)])
  with rq show ?thesis
    by blast
qed

theorem upstream_error_reported_witness:
  "posted (calls (fina_categorize upstream_404 (FinaRequest_of body_plain))) = [request_plain]
   \<and> upstream_404 request_plain =
       Inr \<lparr>status_code = 404, resp_text = ''not found'', resp_json = None\<rparr>
   \<and> returned (fina_categorize upstream_404 (FinaRequest_of body_plain)) =
       Inr (PDict [(''status'', PInt 404), (''error'', PStr ''not found'')])
   \<and> calls (fina_categorize upstream_404 (FinaRequest_of body_plain)) = [Post request_plain]"
proof -
  let ?run = "fina_categorize upstream_404 (FinaRequest_of body_plain)"
  let ?r = "\<lparr>status_code = 404, resp_text = ''not found'', resp_json = None\<rparr>"
  have s: "posted (calls ?run) = [request_plain]"
    by (simp add: posted_fina_categorize request_plain_def FinaRequest_of_def body_plain_def
        FinaItem_of_def model_dump_def with_default_def str_or_def FINA_API_URL_def
        FINA_API_KEY_DEFAULT_def FINA_PARTNER_ID_DEFAULT_def)
  have a: "upstream_404 request_plain = Inr ?r"
    by (simp add: upstream_404_def)
  have c: "400 \<le> status_code ?r"
    by simp
  from upstream_error_reported [of upstream_404 "FinaRequest_of body_plain"] s a c
  have "returned ?run = Inr (PDict [(''status'', PInt (status_code ?r)),
                                     (''error'', PStr (resp_text ?r))])
        \<and> calls ?run = [Post request_plain]"
    by auto
  with s a show ?thesis
    by simp
qed

text \<open>
  C3. Every run sends exactly one request upstream, and when the upstream answers that
  request with a status code below 400, the handler calls \<^verbatim>\<open>r.json()\<close> and returns the
  dict with \<open>status\<close> 200, whatever the upstream status code is, and \<open>categories\<close>, the
  parsed JSON body, or the raw text of the response when the body does not parse.
\<close>

theorem upstream_success_relayed:
  "\<exists>rq. posted (calls (fina_categorize post req)) = [rq]
      \<and> (\<forall>r. post rq = Inr r \<and> status_code r < 400 \<longrightarrow>
           returned (fina_categorize post req) =
             Inr (PDict [(''status'', PInt 200),
                         (''categories'', case resp_json r of
                                            Some v \<Rightarrow> v
                                          | None \<Rightarrow> PStr (resp_text r))])
           \<and> calls (fina_categorize post req) = [Post rq, ResponseJson])"
proof -
  obtain rq where rq: "posted (calls (fina_categorize post req)) = [rq]"
    using posted_single by blast
  have "returned (fina_categorize post req) =
             Inr (PDict [(''status'', PInt 200),
                         (''categories'', case resp_json r of
                                            Some v \<Rightarrow> v
                                          | None \<Rightarrow> PStr (resp_text r))])
           \<and> calls (fina_categorize post req) = [Post rq, ResponseJson]"
    if "post rq = Inr r" and "status_code r < 400" for r
    using that(2) by (simp add: fina_categorize_answered [OF rq that(1)])
  with rq show ?thesis
    by blast
qed

theorem upstream_success_relayed_witness:
  "upstream_201 request_plain =
     Inr \<lparr>status_code = 201, resp_text = ''[1, 2]'', resp_json = Some (PList [PInt 1, PInt 2])\<rparr>
   \<and> returned (fina_categorize upstream_201 (FinaRequest_of body_plain)) =
     Inr (PDict [(''status'', PInt 200), (''categories'', PList [PInt 1, PInt 2])])
   \<and> upstream_plain request_plain =
     Inr \<lparr>status_code = 200, resp_text = ''plain text'', resp_json = None\<rparr>
   \<and> returned (fina_categorize upstream_plain (FinaRequest_of body_plain)) =
     Inr (PDict [(''status'', PInt 200), (''categories'', PStr ''plain text'')])"
proof -
  let ?run1 = "fina_categorize upstream_201 (FinaRequest_of body_plain)"
  let ?r1 = "\<lparr>status_code = 201, resp_text = ''[1, 2]'',
               resp_json = Some (PList [PInt 1, PInt 2])\<rparr>"
  let ?run2 = "fina_categorize upstream_plain (FinaRequest_of body_plain)"
  let ?r2 = "\<lparr>status_code = 200, resp_text = ''plain text'', resp_json = None\<rparr>"
  have a1: "upstream_201 rq = Inr ?r1" for rq
    by (simp add: upstream_201_def)
  have c1: "status_code ?r1 < 400"
    by simp
  have a2: "upstream_plain rq = Inr ?r2" for rq
    by (simp add: upstream_plain_def)
  have c2: "status_code ?r2 < 400"
    by simp
  from upstream_success_relayed [of upstream_201 "FinaRequest_of body_plain"] a1 c1
  have 1: "returned ?run1 = Inr (PDict [(''status'', PInt 200),
             (''categories'', case resp_json ?r1 of Some v \<Rightarrow> v | None \<Rightarrow> PStr (resp_text ?r1))])"
    by auto
  from upstream_success_relayed [of upstream_plain "FinaRequest_of body_plain"] a2 c2
  have 2: "returned ?run2 = Inr (PDict [(''status'', PInt 200),
             (''categories'', case resp_json ?r2 of Some v \<Rightarrow> v | None \<Rightarrow> PStr (resp_text ?r2))])"
    by auto
  from 1 2 a1 a2 show ?thesis
    by simp
qed

end
